theory Spec2Isabelle
  imports Complex_Main "HOL-Library.DAList"
begin

section \<open>Python values, strings and the console\<close>

text \<open>
  The program is \<^verbatim>\<open>src/datadog.py\<close>: a class \<^verbatim>\<open>BudgetCategory\<close>, a class
  \<^verbatim>\<open>BudgetManager\<close> that owns a dict of categories, and a command loop.  The embedding
  covers the two classes.

  Conventions of the embedding:
  \<^item> a Python \<^verbatim>\<open>float\<close> is a rational number with exact arithmetic; rounding, infinities
    and NaN of IEEE doubles are not represented;
  \<^item> a Python \<^verbatim>\<open>str\<close> is a \<open>string\<close> whose characters are the code points
    U+0000 to U+00FF;
  \<^item> a Python \<^verbatim>\<open>dict\<close> is an association list with distinct keys, in insertion order
    (type \<open>alist\<close>): assigning to an existing key keeps its position, a new key goes last;
  \<^item> an uncaught exception is a value \<open>Inl e\<close>;
  \<^item> \<^verbatim>\<open>print\<close> appends a message to \<open>stdout\<close>, \<^verbatim>\<open>input\<close> writes its prompt and
    takes the next line of \<open>stdin\<close>.  A message is a constructor that carries the values
    interpolated into the printed text, not the formatted text.
\<close>

datatype json =
    JNull
  | JBool bool
  | JNum rat
  | JStr string
  | JArr "json list"
  | JObj "(string \<times> json) list"

datatype error =
    KeyError string
  | TypeError
  | AttributeError
  | JSONDecodeError
  | EOFError
  | UnboundLocalError string
  | AnnotationViolation

datatype msg =
    WarnExceedsLimit rat string
  | PromptProceed
  | ExpenseNotAdded
  | WarnExceeded string
  | AlreadyExists string
  | PromptHelp string
  | PromptIncome
  | PromptPercent string
  | InvalidPercentage
  | InvalidIncome
  | AddedCategory string rat
  | NegativeLimit
  | AddedExpense rat string
  | NoSuchCategory string
  | PromptRemove string
  | RemovalCancelled
  | RemovedCategory string
  | SummaryTitle
  | SummaryColumns
  | SummaryRule
  | SummaryRow string rat rat rat
  | TotalSpent rat

text \<open>
  The file \<^verbatim>\<open>DATA_FILE\<close> is absent, holds a JSON document, or holds text that
  \<^verbatim>\<open>json.load\<close> cannot parse.  \<^verbatim>\<open>json.dump\<close> followed by \<^verbatim>\<open>json.load\<close> is taken to
  return the document that was written.
\<close>

datatype file_content = Document json | Unparsable

record world =
  stdin :: "string list"
  stdout :: "msg list"
  data_file :: "file_content option"

definition py_print :: "msg \<Rightarrow> world \<Rightarrow> world" where
  "py_print m w = w\<lparr>stdout := stdout w @ [m]\<rparr>"

definition py_input :: "msg \<Rightarrow> world \<Rightarrow> error + string \<times> world" where
  "py_input prompt w =
     (case stdin w of
        [] \<Rightarrow> Inl EOFError
      | line # rest \<Rightarrow> Inr (line, (py_print prompt w)\<lparr>stdin := rest\<rparr>))"

subsection \<open>\<^verbatim>\<open>str.strip()\<close> and \<^verbatim>\<open>str.lower()\<close>\<close>

text \<open>
  Whitespace below U+0100 is U+0009 to U+000D, U+001C to U+0020, U+0085 and U+00A0.
  The letters with a lowercase form are A to Z, U+00C0 to U+00D6 and U+00D8 to U+00DE;
  the lowercase form is 32 code points further.
\<close>

definition is_space :: "char \<Rightarrow> bool" where
  "is_space c =
     (let n = (of_char c :: nat)
      in (9 \<le> n \<and> n \<le> 13) \<or> (28 \<le> n \<and> n \<le> 32) \<or> n = 133 \<or> n = 160)"

definition is_upper :: "char \<Rightarrow> bool" where
  "is_upper c =
     (let n = (of_char c :: nat)
      in (65 \<le> n \<and> n \<le> 90) \<or> (192 \<le> n \<and> n \<le> 214) \<or> (216 \<le> n \<and> n \<le> 222))"

definition lower_char :: "char \<Rightarrow> char" where
  "lower_char c = (if is_upper c then char_of ((of_char c :: nat) + 32) else c)"

definition lower :: "string \<Rightarrow> string" where
  "lower s = map lower_char s"

definition strip :: "string \<Rightarrow> string" where
  "strip s = rev (dropWhile is_space (rev (dropWhile is_space s)))"

subsection \<open>Dictionaries\<close>

definition dict_items :: "('k, 'v) alist \<Rightarrow> ('k \<times> 'v) list" where
  "dict_items d = DAList.impl_of d"

definition dict_keys :: "('k, 'v) alist \<Rightarrow> 'k list" where
  "dict_keys d = map fst (DAList.impl_of d)"

definition dict_values :: "('k, 'v) alist \<Rightarrow> 'v list" where
  "dict_values d = map snd (DAList.impl_of d)"

definition dict_contains :: "'k \<Rightarrow> ('k, 'v) alist \<Rightarrow> bool" where
  "dict_contains k d = (DAList.lookup d k \<noteq> None)"

text \<open>\<^verbatim>\<open>sum(...)\<close> adds from the left, starting at 0.\<close>

definition py_sum :: "rat list \<Rightarrow> rat" where
  "py_sum xs = foldl (+) 0 xs"

section \<open>\<^verbatim>\<open>BudgetCategory\<close>\<close>

record BudgetCategory =
  name :: string
  limit :: rat
  spent :: rat

definition BudgetCategory_init :: "string \<Rightarrow> rat \<Rightarrow> BudgetCategory" where
  "BudgetCategory_init name' limit' = \<lparr>name = name', limit = limit', spent = 0\<rparr>"

definition BudgetCategory_add_expense ::
  "BudgetCategory \<Rightarrow> rat \<Rightarrow> world \<Rightarrow> error + BudgetCategory \<times> world" where
  "BudgetCategory_add_expense self amount w =
     (if spent self + amount > limit self then
        (case py_input PromptProceed (py_print (WarnExceedsLimit amount (name self)) w) of
           Inl e \<Rightarrow> Inl e
         | Inr (line, w1) \<Rightarrow>
             (let proceed = lower (strip line)
              in if proceed = ''yes'' then Inr (self\<lparr>spent := spent self + amount\<rparr>, w1)
                 else if proceed = ''no'' then Inr (self, py_print ExpenseNotAdded w1)
                 else Inr (self, w1)))
      else Inr (self\<lparr>spent := spent self + amount\<rparr>, w))"

definition BudgetCategory_remaining :: "BudgetCategory \<Rightarrow> world \<Rightarrow> rat \<times> world" where
  "BudgetCategory_remaining self w =
     (limit self - spent self,
      if spent self > limit self then py_print (WarnExceeded (name self)) w else w)"

definition BudgetCategory_to_dict :: "BudgetCategory \<Rightarrow> (string \<times> json) list" where
  "BudgetCategory_to_dict self =
     [(''name'', JStr (name self)), (''limit'', JNum (limit self)), (''spent'', JNum (spent self))]"

text \<open>
  \<^verbatim>\<open>data[k]\<close> raises \<^verbatim>\<open>KeyError\<close> on a missing key.  \<^verbatim>\<open>from_dict\<close> reads
  \<^verbatim>\<open>data["name"]\<close>, \<^verbatim>\<open>data["limit"]\<close> and \<^verbatim>\<open>data["spent"]\<close> in this order and
  checks nothing else.  The fields of the record are typed as the class annotates them
  (\<^verbatim>\<open>name: str\<close>, \<^verbatim>\<open>limit: float\<close>, \<^verbatim>\<open>spent: float\<close>); where all three keys are
  present and a value has another JSON type, Python would build an object outside these
  annotations, and the embedding stops with \<open>AnnotationViolation\<close>.
\<close>

definition getitem :: "(string \<times> json) list \<Rightarrow> string \<Rightarrow> error + json" where
  "getitem data k = (case map_of data k of None \<Rightarrow> Inl (KeyError k) | Some v \<Rightarrow> Inr v)"

definition BudgetCategory_from_dict :: "(string \<times> json) list \<Rightarrow> error + BudgetCategory" where
  "BudgetCategory_from_dict data =
     (case getitem data ''name'' of
        Inl e \<Rightarrow> Inl e
      | Inr n \<Rightarrow>
     (case getitem data ''limit'' of
        Inl e \<Rightarrow> Inl e
      | Inr l \<Rightarrow>
     (case getitem data ''spent'' of
        Inl e \<Rightarrow> Inl e
      | Inr s \<Rightarrow>
     (case (n, l, s) of
        (JStr name', JNum limit', JNum spent') \<Rightarrow>
          Inr ((BudgetCategory_init name' limit')\<lparr>spent := spent'\<rparr>)
      | _ \<Rightarrow> Inl AnnotationViolation))))"

section \<open>\<^verbatim>\<open>BudgetManager\<close>\<close>

record BudgetManager =
  categories :: "(string, BudgetCategory) alist"

text \<open>
  \<^verbatim>\<open>add_category\<close> converts two lines of input with the builtin \<^verbatim>\<open>float(...)\<close>.  The
  builtin is the parameter \<open>float_of\<close>: \<open>None\<close> where it raises \<^verbatim>\<open>ValueError\<close>.  Both
  \<^verbatim>\<open>try\<close> blocks catch \<^verbatim>\<open>ValueError\<close>, print and return.
\<close>

definition BudgetManager_add_category ::
  "(string \<Rightarrow> rat option) \<Rightarrow> BudgetManager \<Rightarrow> string \<Rightarrow> rat \<Rightarrow> world
     \<Rightarrow> error + BudgetManager \<times> world" where
  "BudgetManager_add_category float_of self name0 limit0 w =
     (let name' = lower (strip name0)
      in if dict_contains name' (categories self) \<or> name' = '''' then
           Inr (self, py_print (AlreadyExists name') w)
         else
           (case py_input (PromptHelp name') w of
              Inl e \<Rightarrow> Inl e
            | Inr (line1, w1) \<Rightarrow>
                if lower (strip line1) = ''yes'' then
                  (case py_input PromptIncome w1 of
                     Inl e \<Rightarrow> Inl e
                   | Inr (line2, w2) \<Rightarrow>
                  (case py_input (PromptPercent name') w2 of
                     Inl e \<Rightarrow> Inl e
                   | Inr (line3, w3) \<Rightarrow>
                  (case float_of (strip line3) of
                     None \<Rightarrow> Inr (self, py_print InvalidPercentage w3)
                   | Some percentage \<Rightarrow>
                       if percentage < 0 \<or> percentage > 100 then
                         Inr (self, py_print InvalidPercentage w3)
                       else
                         (case float_of (strip line2) of
                            None \<Rightarrow> Inr (self, py_print InvalidIncome w3)
                          | Some income \<Rightarrow>
                              if income < 0 then Inr (self, py_print InvalidIncome w3)
                              else
                                (let limit' = income * (percentage / 100)
                                 in Inr (self\<lparr>categories :=
                                           DAList.update name' (BudgetCategory_init name' limit')
                                             (categories self)\<rparr>,
                                         py_print (AddedCategory name' limit') w3))))))
                else if limit0 < 0 then Inr (self, py_print NegativeLimit w1)
                else
                  Inr (self\<lparr>categories :=
                         DAList.update name' (BudgetCategory_init name' limit0) (categories self)\<rparr>,
                       py_print (AddedCategory name' limit0) w1)))"

text \<open>
  \<^verbatim>\<open>self.categories[name].add_expense(amount)\<close> changes the category object in place:
  the entry keeps its position in the dict.
\<close>

definition BudgetManager_add_expense ::
  "BudgetManager \<Rightarrow> string \<Rightarrow> rat \<Rightarrow> world \<Rightarrow> error + BudgetManager \<times> world" where
  "BudgetManager_add_expense self name' amount w =
     (case DAList.lookup (categories self) name' of
        Some category \<Rightarrow>
          (case BudgetCategory_add_expense category amount w of
             Inl e \<Rightarrow> Inl e
           | Inr (category', w1) \<Rightarrow>
               Inr (self\<lparr>categories := DAList.update name' category' (categories self)\<rparr>,
                    py_print (AddedExpense amount name') w1))
      | None \<Rightarrow> Inr (self, py_print (NoSuchCategory name') w))"

definition BudgetManager_remove_category ::
  "BudgetManager \<Rightarrow> string \<Rightarrow> world \<Rightarrow> error + BudgetManager \<times> world" where
  "BudgetManager_remove_category self name' w =
     (if dict_contains name' (categories self) then
        (case py_input (PromptRemove name') w of
           Inl e \<Rightarrow> Inl e
         | Inr (line, w1) \<Rightarrow>
             if lower (strip line) \<noteq> ''yes'' then Inr (self, py_print RemovalCancelled w1)
             else
               Inr (self\<lparr>categories := DAList.delete name' (categories self)\<rparr>,
                    py_print (RemovedCategory name') w1))
      else Inr (self, py_print (NoSuchCategory name') w))"

text \<open>
  The loop of \<^verbatim>\<open>show_summary\<close>.  The local variable \<^verbatim>\<open>total_spent\<close> is assigned in the
  body of the loop (source line 204) and read after it (line 205); it is \<open>None\<close> while
  unbound, and reading it unbound raises \<^verbatim>\<open>UnboundLocalError\<close>.
\<close>

fun show_summary_loop ::
  "BudgetManager \<Rightarrow> BudgetCategory list \<Rightarrow> rat option \<Rightarrow> world \<Rightarrow> rat option \<times> world" where
  "show_summary_loop self [] total_spent w = (total_spent, w)"
| "show_summary_loop self (category # rest) total_spent w =
     (case BudgetCategory_remaining category w of
        (remaining, w1) \<Rightarrow>
          show_summary_loop self rest
            (Some (py_sum (map spent (dict_values (categories self)))))
            (py_print SummaryRule
              (py_print
                (SummaryRow (name category) (spent category) (limit category) remaining) w1)))"

definition BudgetManager_show_summary :: "BudgetManager \<Rightarrow> world \<Rightarrow> error + world" where
  "BudgetManager_show_summary self w =
     (case show_summary_loop self (dict_values (categories self)) None
             (py_print SummaryRule (py_print SummaryColumns (py_print SummaryTitle w))) of
        (None, w1) \<Rightarrow> Inl (UnboundLocalError ''total_spent'')
      | (Some total_spent, w1) \<Rightarrow> Inr (py_print (TotalSpent total_spent) w1))"

definition BudgetManager_save_data :: "BudgetManager \<Rightarrow> world \<Rightarrow> world" where
  "BudgetManager_save_data self w =
     w\<lparr>data_file :=
         Some (Document (JObj (map (\<lambda>(k, v). (k, JObj (BudgetCategory_to_dict v)))
                                 (dict_items (categories self)))))\<rparr>"

text \<open>
  The dict comprehension of \<^verbatim>\<open>load_data\<close>: the items of the loaded document in order,
  each value through \<^verbatim>\<open>from_dict\<close>.  Subscripting a value that is not a dict with a
  string raises \<^verbatim>\<open>TypeError\<close>; a document that is not a dict has no \<^verbatim>\<open>items\<close>
  (\<^verbatim>\<open>AttributeError\<close>).
\<close>

fun load_items ::
  "(string \<times> json) list \<Rightarrow> (string, BudgetCategory) alist
     \<Rightarrow> error + (string, BudgetCategory) alist" where
  "load_items [] acc = Inr acc"
| "load_items ((k, v) # rest) acc =
     (case v of
        JObj data \<Rightarrow>
          (case BudgetCategory_from_dict data of
             Inl e \<Rightarrow> Inl e
           | Inr category \<Rightarrow> load_items rest (DAList.update k category acc))
      | _ \<Rightarrow> Inl TypeError)"

definition BudgetManager_load_data :: "BudgetManager \<Rightarrow> world \<Rightarrow> error + BudgetManager \<times> world" where
  "BudgetManager_load_data self w =
     (case data_file w of
        None \<Rightarrow> Inr (self, w)
      | Some Unparsable \<Rightarrow> Inl JSONDecodeError
      | Some (Document (JObj items)) \<Rightarrow>
          (case load_items items DAList.empty of
             Inl e \<Rightarrow> Inl e
           | Inr loaded \<Rightarrow> Inr (self\<lparr>categories := loaded\<rparr>, w))
      | Some (Document _) \<Rightarrow> Inl AttributeError)"

definition BudgetManager_init :: "world \<Rightarrow> error + BudgetManager \<times> world" where
  "BudgetManager_init w = BudgetManager_load_data \<lparr>categories = DAList.empty\<rparr> w"

subsection \<open>An instance of \<^verbatim>\<open>float(...)\<close> for the examples\<close>

text \<open>
  On a non-empty string of the digits 0 to 9, with or without a minus sign in front,
  \<^verbatim>\<open>float\<close> returns the number written in base ten.  \<open>float_digits\<close> is that part of
  the builtin and refuses every other string; it instantiates the parameter \<open>float_of\<close>
  in the examples only.
\<close>

definition digit_of :: "char \<Rightarrow> nat option" where
  "digit_of c =
     (let n = (of_char c :: nat) in if 48 \<le> n \<and> n \<le> 57 then Some (n - 48) else None)"

fun digits_value :: "nat \<Rightarrow> string \<Rightarrow> nat option" where
  "digits_value acc [] = Some acc"
| "digits_value acc (c # cs) =
     (case digit_of c of None \<Rightarrow> None | Some d \<Rightarrow> digits_value (10 * acc + d) cs)"

definition unsigned_digits :: "string \<Rightarrow> rat option" where
  "unsigned_digits s = (if s = [] then None else map_option of_nat (digits_value 0 s))"

definition float_digits :: "string \<Rightarrow> rat option" where
  "float_digits s =
     (if s \<noteq> [] \<and> hd s = CHR ''-'' then map_option uminus (unsigned_digits (tl s))
      else unsigned_digits s)"

section \<open>Predicates used in the statements\<close>

text \<open>
  What \<^verbatim>\<open>show_summary\<close> prints for one category: the warning of \<^verbatim>\<open>remaining()\<close> when
  the category is over its limit, the row, and the rule under it.
\<close>

definition summary_lines :: "BudgetCategory \<Rightarrow> msg list" where
  "summary_lines c =
     (if spent c > limit c then [WarnExceeded (name c)] else [])
       @ [SummaryRow (name c) (spent c) (limit c) (limit c - spent c), SummaryRule]"

text \<open>A string with an uppercase letter, and a manager none of whose keys has one.\<close>

definition has_upper :: "string \<Rightarrow> bool" where
  "has_upper s = list_ex is_upper s"

definition lowercase_keys :: "BudgetManager \<Rightarrow> bool" where
  "lowercase_keys m = list_all (\<lambda>k. \<not> has_upper k) (dict_keys (categories m))"

section \<open>Category records\<close>

lemma getitem_None: "map_of data k = None \<Longrightarrow> getitem data k = Inl (KeyError k)"
  by (simp add: getitem_def)

lemma getitem_Some: "map_of data k = Some v \<Longrightarrow> getitem data k = Inr v"
  by (simp add: getitem_def)

text \<open>
  C5.  For every category, whatever its name, limit and spent, reading back the dictionary
  that \<^verbatim>\<open>to_dict\<close> produces gives a category with the same name, limit and spent.
\<close>

theorem from_dict_to_dict:
  "BudgetCategory_from_dict (BudgetCategory_to_dict c) = Inr c"
  by (simp add: BudgetCategory_from_dict_def BudgetCategory_to_dict_def getitem_def
      BudgetCategory_init_def)

text \<open>
  C6.  A record that lacks one of the keys \<^verbatim>\<open>name\<close>, \<^verbatim>\<open>limit\<close>, \<^verbatim>\<open>spent\<close> is
  refused: \<^verbatim>\<open>from_dict\<close> raises \<^verbatim>\<open>KeyError\<close> for a missing key and builds no category.
\<close>

theorem from_dict_missing_field:
  assumes "map_of data ''name'' = None \<or> map_of data ''limit'' = None
             \<or> map_of data ''spent'' = None"
  shows "\<exists>k. (k = ''name'' \<or> k = ''limit'' \<or> k = ''spent'') \<and> map_of data k = None
             \<and> BudgetCategory_from_dict data = Inl (KeyError k)"
proof -
  consider
      (name) "map_of data ''name'' = None"
    | (limit) n where "map_of data ''name'' = Some n" "map_of data ''limit'' = None"
    | (spent) n l where "map_of data ''name'' = Some n" "map_of data ''limit'' = Some l"
        "map_of data ''spent'' = None"
    using assms by (cases "map_of data ''name''"; cases "map_of data ''limit''") auto
  then show ?thesis
  proof cases
    case name
    then have "BudgetCategory_from_dict data = Inl (KeyError ''name'')"
      by (simp add: BudgetCategory_from_dict_def getitem_None)
    with name show ?thesis by blast
  next
    case limit
    then have "BudgetCategory_from_dict data = Inl (KeyError ''limit'')"
      by (simp add: BudgetCategory_from_dict_def getitem_None getitem_Some)
    with limit show ?thesis by blast
  next
    case spent
    then have "BudgetCategory_from_dict data = Inl (KeyError ''spent'')"
      by (simp add: BudgetCategory_from_dict_def getitem_None getitem_Some)
    with spent show ?thesis by blast
  qed
qed

theorem from_dict_missing_field_witness:
  "(map_of [(''name'', JStr ''food''), (''limit'', JNum 100)] ''name'' = None
      \<or> map_of [(''name'', JStr ''food''), (''limit'', JNum 100)] ''limit'' = None
      \<or> map_of [(''name'', JStr ''food''), (''limit'', JNum 100)] ''spent'' = None)
   \<and> BudgetCategory_from_dict [(''name'', JStr ''food''), (''limit'', JNum 100)]
         = Inl (KeyError ''spent'')"
  using from_dict_missing_field [of "[(''name'', JStr ''food''), (''limit'', JNum 100)]"]
  by auto

section \<open>Expenses on one category\<close>







section \<open>Creating categories\<close>

text \<open>
  C7.  When the name, after \<^verbatim>\<open>strip\<close> and \<^verbatim>\<open>lower\<close>, is empty or already a key of
  \<^verbatim>\<open>categories\<close>, \<^verbatim>\<open>add_category\<close> prints "already exists" and returns: the manager
  is unchanged, no category is created or modified, and nothing is read.
\<close>

theorem add_category_duplicate_or_blank:
  assumes "lower (strip nm) = '''' \<or> dict_contains (lower (strip nm)) (categories m)"
  shows "BudgetManager_add_category float_of m nm limit0 w =
           Inr (m, py_print (AlreadyExists (lower (strip nm))) w)"
  using assms by (auto simp add: BudgetManager_add_category_def Let_def)

theorem add_category_duplicate_or_blank_witness:
  "lower (strip ''   '') = ''''
   \<and> BudgetManager_add_category float_digits \<lparr>categories = DAList.empty\<rparr> ''   '' 50
         \<lparr>stdin = [''no''], stdout = [], data_file = None\<rparr>
       = Inr (\<lparr>categories = DAList.empty\<rparr>,
              \<lparr>stdin = [''no''], stdout = [AlreadyExists ''''], data_file = None\<rparr>)
   \<and> dict_contains (lower (strip ''Food''))
         (categories \<lparr>categories = DAList.update ''food'' (BudgetCategory_init ''food'' 200) DAList.empty\<rparr>)
   \<and> BudgetManager_add_category float_digits
         \<lparr>categories = DAList.update ''food'' (BudgetCategory_init ''food'' 200) DAList.empty\<rparr>
         ''Food'' 50 \<lparr>stdin = [''no''], stdout = [], data_file = None\<rparr>
       = Inr (\<lparr>categories = DAList.update ''food'' (BudgetCategory_init ''food'' 200) DAList.empty\<rparr>,
              \<lparr>stdin = [''no''], stdout = [AlreadyExists ''food''], data_file = None\<rparr>)"
proof -
  have blank: "lower (strip ''   '') = ''''" by code_simp
  have food: "lower (strip ''Food'') = ''food''" by code_simp
  show ?thesis
    using blank food
      add_category_duplicate_or_blank
        [of "''   ''" "\<lparr>categories = DAList.empty\<rparr>" float_digits 50
            "\<lparr>stdin = [''no''], stdout = [], data_file = None\<rparr>"]
      add_category_duplicate_or_blank
        [of "''Food''"
            "\<lparr>categories = DAList.update ''food'' (BudgetCategory_init ''food'' 200) DAList.empty\<rparr>"
            float_digits 50 "\<lparr>stdin = [''no''], stdout = [], data_file = None\<rparr>"]
    by (simp add: dict_contains_def py_print_def)
qed



section \<open>Saving and loading\<close>

text \<open>
  A new key is added at the end of a dict, so building a dict from the items of a dict
  gives it back.
\<close>

lemma from_dict_inverse: "BudgetCategory_from_dict (BudgetCategory_to_dict c) = Inr c"
  by (simp add: BudgetCategory_from_dict_def BudgetCategory_to_dict_def getitem_def
      BudgetCategory_init_def)

lemma update_new_key: "k \<notin> fst ` set xs \<Longrightarrow> AList.update k v xs = xs @ [(k, v)]"
  by (induction xs) auto

lemma fold_update_distinct:
  "distinct (map fst (acc @ xs)) \<Longrightarrow> fold (\<lambda>(k, v). AList.update k v) xs acc = acc @ xs"
proof (induction xs arbitrary: acc)
  case Nil
  then show ?case by simp
next
  case (Cons p xs)
  obtain k v where p: "p = (k, v)" by (cases p)
  from Cons.prems p have fresh: "k \<notin> fst ` set acc" by auto
  from Cons.prems p have "distinct (map fst ((acc @ [(k, v)]) @ xs))" by simp
  then have "fold (\<lambda>(k, v). AList.update k v) xs (acc @ [(k, v)]) = (acc @ [(k, v)]) @ xs"
    by (rule Cons.IH)
  with fresh p show ?case by (simp add: update_new_key)
qed

lemma impl_of_fold_update:
  "DAList.impl_of (fold (\<lambda>(k, v). DAList.update k v) xs d)
     = fold (\<lambda>(k, v). AList.update k v) xs (DAList.impl_of d)"
  by (induction xs arbitrary: d) (auto simp add: DAList.update.rep_eq)

lemma fold_update_items: "fold (\<lambda>(k, v). DAList.update k v) (dict_items d) DAList.empty = d"
proof (rule alist_ext)
  have "distinct (map fst ([] @ DAList.impl_of d))" by simp
  then have "fold (\<lambda>(k, v). AList.update k v) (DAList.impl_of d) [] = [] @ DAList.impl_of d"
    by (rule fold_update_distinct)
  then show "DAList.impl_of (fold (\<lambda>(k, v). DAList.update k v) (dict_items d) DAList.empty)
               = DAList.impl_of d"
    by (simp add: impl_of_fold_update dict_items_def DAList.empty.rep_eq)
qed

lemma load_items_saved:
  "load_items (map (\<lambda>(k, v). (k, JObj (BudgetCategory_to_dict v))) xs) acc
     = Inr (fold (\<lambda>(k, v). DAList.update k v) xs acc)"
  by (induction xs arbitrary: acc) (auto simp add: from_dict_inverse)

text \<open>
  C1.  \<^verbatim>\<open>save_data\<close> followed by the construction of a fresh manager (which runs
  \<^verbatim>\<open>load_data\<close> on an empty dict) gives a manager equal to the one saved: the same
  keys in the same order, each with a category of the same name, limit and spent.
\<close>

theorem save_then_load:
  "BudgetManager_init (BudgetManager_save_data m w) = Inr (m, BudgetManager_save_data m w)"
  by (simp add: BudgetManager_init_def BudgetManager_load_data_def BudgetManager_save_data_def
      load_items_saved fold_update_items)

section \<open>The summary\<close>

text \<open>
  With at least one category the loop binds \<^verbatim>\<open>total_spent\<close>, and \<^verbatim>\<open>show_summary\<close>
  prints the three header lines, the lines of every category in insertion order, and the
  sum of \<open>spent\<close> over all categories.
\<close>

lemma foldl_plus_sum_list: "foldl (+) a xs = a + sum_list (xs :: rat list)"
  by (induction xs arbitrary: a) (simp_all add: add.assoc)

lemma py_sum_sum_list: "py_sum xs = sum_list xs"
  by (simp add: py_sum_def foldl_plus_sum_list)

lemma show_summary_loop_eq:
  "show_summary_loop self cs t w =
     (if cs = [] then t else Some (sum_list (map spent (dict_values (categories self)))),
      w\<lparr>stdout := stdout w @ concat (map summary_lines cs)\<rparr>)"
proof (induction cs arbitrary: t w)
  case Nil
  then show ?case by simp
next
  case (Cons c cs)
  show ?case
    by (simp add: Cons.IH BudgetCategory_remaining_def py_print_def summary_lines_def
        py_sum_sum_list)
qed

lemma show_summary_nonempty:
  assumes "dict_values (categories m) \<noteq> []"
  shows "BudgetManager_show_summary m w =
           Inr (w\<lparr>stdout := stdout w @ [SummaryTitle, SummaryColumns, SummaryRule]
                   @ concat (map summary_lines (dict_values (categories m)))
                   @ [TotalSpent (sum_list (map spent (dict_values (categories m))))]\<rparr>)"
  using assms by (simp add: BudgetManager_show_summary_def show_summary_loop_eq py_print_def)

text \<open>
  C2.  Summarize is claimed to succeed on every ledger, the empty one included.  With no
  categories the body of the loop never runs, \<^verbatim>\<open>total_spent\<close> is never bound, and the
  last \<^verbatim>\<open>print\<close> of \<^verbatim>\<open>show_summary\<close> raises \<^verbatim>\<open>UnboundLocalError\<close>.
\<close>

theorem show_summary_no_categories:
  "BudgetManager_show_summary \<lparr>categories = DAList.empty\<rparr> w =
     Inl (UnboundLocalError ''total_spent'')"
  by (simp add: BudgetManager_show_summary_def dict_values_def DAList.empty.rep_eq)

section \<open>Looking a category up by the spelling it was created with\<close>



lemma lookup_None_iff: "DAList.lookup d k = None \<longleftrightarrow> k \<notin> set (dict_keys d)"
  by (simp add: DAList.lookup.rep_eq dict_keys_def map_of_eq_None_iff)

lemma dict_keys_update:
  "set (dict_keys (DAList.update k v d)) = insert k (set (dict_keys d))"
  by (simp add: dict_keys_def DAList.update.rep_eq dom_update)

lemma dict_keys_delete: "set (dict_keys (DAList.delete k d)) \<subseteq> set (dict_keys d)"
  using dom_delete_subset [of k "DAList.impl_of d"]
  by (simp add: dict_keys_def DAList.delete.rep_eq)


lemma lowercase_keys_iff: "lowercase_keys m \<longleftrightarrow> (\<forall>k \<in> set (dict_keys (categories m)). \<not> has_upper k)"
  by (simp add: lowercase_keys_def list_all_iff)

lemma lowercase_keys_empty: "lowercase_keys \<lparr>categories = DAList.empty\<rparr>"
  by (simp add: lowercase_keys_def dict_keys_def DAList.empty.rep_eq)


lemma lowercase_keys_add_expense:
  assumes "lowercase_keys m"
    and "BudgetManager_add_expense m nm amount w = Inr (m', w')"
  shows "lowercase_keys m'"
proof (cases "DAList.lookup (categories m) nm")
  case None
  with assms show ?thesis by (simp add: BudgetManager_add_expense_def)
next
  case (Some c)
  then have "nm \<in> set (dict_keys (categories m))"
    using lookup_None_iff [of "categories m" nm] by simp
  with assms Some show ?thesis
    by (auto simp add: BudgetManager_add_expense_def lowercase_keys_iff dict_keys_update
        split: sum.splits)
qed

lemma lowercase_keys_remove_category:
  assumes "lowercase_keys m"
    and "BudgetManager_remove_category m nm w = Inr (m', w')"
  shows "lowercase_keys m'"
  using assms dict_keys_delete [of nm "categories m"]
  by (auto simp add: BudgetManager_remove_category_def lowercase_keys_iff py_input_def
      split: if_splits list.splits)




end
